theory Spec2Isabelle
  imports Main
begin

section \<open>Data model of \<open>src/text_extraction.py\<close>\<close>

text \<open>
  Python values as far as the adapter handles them: the values of the request
  dictionary (\<open>Dict[str, Any]\<close>) and the dictionaries the adapter returns. A dictionary
  is an association list in insertion order, as a Python dict literal builds it.
\<close>

datatype pyval =
    PNone
  | PBool bool
  | PInt int
  | PStr string
  | PBytes string
  | PList "pyval list"
  | PDict "(string \<times> pyval) list"

text \<open>\<open>d.get(k)\<close> on a dictionary value; a value that is no dictionary has no keys.\<close>

fun py_get :: "pyval \<Rightarrow> string \<Rightarrow> pyval option" where
  "py_get (PDict kvs) k = map_of kvs k"
| "py_get _ k = None"

fun py_keys :: "pyval \<Rightarrow> string list" where
  "py_keys (PDict kvs) = map fst kvs"
| "py_keys _ = []"

text \<open>
  An exception object: its class name and the text \<open>str(e)\<close> renders. Every exception
  of the model is an instance of \<open>Exception\<close>, the class the handler of \<open>process\<close> names.
\<close>

datatype exn = Exn (exc_class: string) (exc_str: string)

definition ValueError :: "string \<Rightarrow> exn" where
  "ValueError msg = Exn ''ValueError'' msg"

text \<open>
  The result of the analysis service, typed as its client library declares it:
  pages with their lines, tables with their cells.
\<close>

record document_line =
  content :: string

record document_page =
  lines :: "document_line list"

record document_table_cell =
  row_index :: int
  column_index :: int
  cell_content :: string

record document_table =
  cells :: "document_table_cell list"

record analyze_result =
  pages :: "document_page list"
  tables :: "document_table list"

text \<open>
  The poller a \<open>begin_analyze_...\<close> operation hands back: \<open>poller.result()\<close> either
  raises or returns the analysis result.
\<close>

type_synonym poller = "exn + analyze_result"

text \<open>
  The client of the remote service with its two operations, each taking the model
  identifier and the payload, and each either raising or returning a poller. The
  service is outside the repository, so it is a parameter of the model. An operation
  that never returns is not a behaviour of the model.
\<close>

record document_analysis_client =
  begin_analyze_document :: "string \<Rightarrow> pyval \<Rightarrow> exn + poller"
  begin_analyze_document_from_url :: "string \<Rightarrow> pyval \<Rightarrow> exn + poller"

text \<open>
  \<open>settings\<close> of the configuration module, which the adapter only reads: the two
  credentials (absent or a string) and the model identifier.
\<close>

record settings =
  AZURE_FORMRECOGNIZER_ENDPOINT :: "string option"
  AZURE_FORMRECOGNIZER_KEY :: "string option"
  PREBUILT_MODEL :: string

text \<open>The service operations a call of \<open>process\<close> performs, in order.\<close>

datatype call =
    BeginAnalyzeDocument string pyval
  | BeginAnalyzeDocumentFromUrl string pyval
  | PollerResult

section \<open>The adapter\<close>

text \<open>Python truthiness of a credential: \<open>None\<close> and the empty string are falsy.\<close>

definition truthy :: "string option \<Rightarrow> bool" where
  "truthy v = (case v of None \<Rightarrow> False | Some s \<Rightarrow> s \<noteq> [])"

definition newline :: char where
  "newline = CHR 0x0A"

text \<open>The decimal rendering of a page number, as the f-string formats it.\<close>

definition digit_char :: "nat \<Rightarrow> char" where
  "digit_char d = char_of (48 + d)"

fun str_nat :: "nat \<Rightarrow> string" where
  "str_nat n = (if n < 10 then [digit_char n] else str_nat (n div 10) @ [digit_char (n mod 10)])"

declare str_nat.simps [simp del]

text \<open>Lines 57-58: the inner loop over the lines of a page.\<close>

fun lines_loop :: "string \<Rightarrow> document_line list \<Rightarrow> string" where
  "lines_loop extracted_text [] = extracted_text"
| "lines_loop extracted_text (line # rest) =
     lines_loop (extracted_text @ (content line @ [newline])) rest"

text \<open>Lines 55-58: the loop over \<open>enumerate(result.pages, start=1)\<close>.\<close>

fun pages_loop :: "string \<Rightarrow> nat \<Rightarrow> document_page list \<Rightarrow> string" where
  "pages_loop extracted_text page_num [] = extracted_text"
| "pages_loop extracted_text page_num (page # rest) =
     pages_loop
       (lines_loop (extracted_text @ (''page number '' @ str_nat page_num @ [newline])) (lines page))
       (Suc page_num) rest"

text \<open>Lines 64-69: the loop over the cells of a table.\<close>

fun cells_loop :: "pyval list \<Rightarrow> document_table_cell list \<Rightarrow> pyval list" where
  "cells_loop table_data [] = table_data"
| "cells_loop table_data (cell # rest) =
     cells_loop
       (table_data @
          [PDict [(''row'', PInt (row_index cell)),
                  (''column'', PInt (column_index cell)),
                  (''content'', PStr (cell_content cell))]])
       rest"

text \<open>Lines 62-70: the loop over the tables.\<close>

fun tables_loop :: "pyval list \<Rightarrow> document_table list \<Rightarrow> pyval list" where
  "tables_loop tables_acc [] = tables_acc"
| "tables_loop tables_acc (table # rest) =
     tables_loop (tables_acc @ [PList (cells_loop [] (cells table))]) rest"

text \<open>Lines 54-80: the success record built from the service's result.\<close>

definition flatten :: "settings \<Rightarrow> analyze_result \<Rightarrow> pyval" where
  "flatten st result =
     (let extracted_text = pages_loop [] 1 (pages result);
          tables_data = tables_loop [] (tables result)
      in PDict
           [(''result'', PStr extracted_text),
            (''metadata'',
               PDict
                 [(''pages'', PInt (int (length (pages result)))),
                  (''tables'', PInt (int (length tables_data))),
                  (''tables_data'', PList tables_data),
                  (''model'', PStr (PREBUILT_MODEL st))])])"

text \<open>
  Lines 35-49: the dispatch on the keys of the request. The outcome is the exception
  raised or the poller, with the service operations performed.
\<close>

definition dispatch ::
  "settings \<Rightarrow> document_analysis_client \<Rightarrow> (string \<rightharpoonup> pyval) \<Rightarrow> (exn + poller) \<times> call list"
where
  "dispatch st client input_data =
     (case input_data ''file_bytes'' of
        Some file_bytes \<Rightarrow>
          (begin_analyze_document client (PREBUILT_MODEL st) file_bytes,
           [BeginAnalyzeDocument (PREBUILT_MODEL st) file_bytes])
      | None \<Rightarrow>
          (case input_data ''file_url'' of
             Some file_url \<Rightarrow>
               (begin_analyze_document_from_url client (PREBUILT_MODEL st) file_url,
                [BeginAnalyzeDocumentFromUrl (PREBUILT_MODEL st) file_url])
           | None \<Rightarrow>
               (Inl (ValueError ''Either 'file_bytes' or 'file_url' must be provided''), [])))"

text \<open>
  Lines 23-80: the body of the \<open>try\<close> block. Constructing the client from two
  non-empty strings performs no service operation.
\<close>

definition process_try ::
  "settings \<Rightarrow> document_analysis_client \<Rightarrow> (string \<rightharpoonup> pyval) \<Rightarrow> (exn + pyval) \<times> call list"
where
  "process_try st client input_data =
     (let endpoint = AZURE_FORMRECOGNIZER_ENDPOINT st;
          key = AZURE_FORMRECOGNIZER_KEY st
      in if \<not> truthy endpoint \<or> \<not> truthy key
         then (Inl (ValueError ''Azure Form Recognizer credentials not configured''), [])
         else
           (case dispatch st client input_data of
              (Inl e, calls) \<Rightarrow> (Inl e, calls)
            | (Inr poller, calls) \<Rightarrow>
                (case poller of
                   Inl e \<Rightarrow> (Inl e, calls @ [PollerResult])
                 | Inr result \<Rightarrow> (Inr (flatten st result), calls @ [PollerResult]))))"

text \<open>Lines 82-85: the record the handler returns, given \<open>str(e)\<close>.\<close>

definition failure_record :: "string \<Rightarrow> pyval" where
  "failure_record msg = PDict [(''error'', PStr msg), (''result'', PNone)]"

text \<open>Lines 22-85: \<open>process\<close>, with the handler that turns an exception into a record.\<close>

definition process ::
  "settings \<Rightarrow> document_analysis_client \<Rightarrow> (string \<rightharpoonup> pyval) \<Rightarrow> pyval \<times> call list"
where
  "process st client input_data =
     (case process_try st client input_data of
        (Inr out, calls) \<Rightarrow> (out, calls)
      | (Inl e, calls) \<Rightarrow> (failure_record (exc_str e), calls))"

section \<open>The schema probes\<close>

text \<open>Lines 88-103.\<close>

definition get_input_schema :: "unit \<Rightarrow> pyval" where
  "get_input_schema u =
     PDict
       [(''type'', PStr ''object''),
        (''properties'',
           PDict
             [(''file_bytes'',
                 PDict
                   [(''type'', PStr ''string''),
                    (''description'', PStr ''Base64 encoded file bytes or binary data'')]),
              (''file_url'',
                 PDict
                   [(''type'', PStr ''string''),
                    (''description'', PStr ''URL to the document to extract'')])]),
        (''required'', PList [PStr ''file_bytes''])]"

text \<open>Lines 106-120.\<close>

definition get_output_schema :: "unit \<Rightarrow> pyval" where
  "get_output_schema u =
     PDict
       [(''type'', PStr ''object''),
        (''properties'',
           PDict
             [(''result'',
                 PDict
                   [(''type'', PStr ''string''),
                    (''description'', PStr ''Extracted text content'')]),
              (''metadata'',
                 PDict
                   [(''type'', PStr ''object''),
                    (''description'',
                       PStr ''Extraction metadata including pages and tables'')])])]"

text \<open>Lines 128-142: the long description of the agent.\<close>

definition description_text :: string where
  "description_text =
     ''The Text Extraction Agent uses Azure Document Intelligence (formerly Form '' @
     ''Recognizer) to extract text, tables, and structured data from various '' @
     ''document types. It provides high-accuracy text extraction from PDFs, images, '' @
     ''and scanned documents, making it an essential first step in document '' @
     ''processing workflows.'' @
     [newline] @
     [newline] @
     ''The agent processes documents using Azure Document Intelligence's prebuilt '' @
     ''model to extract text content while preserving document structure and layout. '' @
     ''It handles two input types: file_bytes (base64 encoded file bytes or binary '' @
     ''data provided directly) and file_url (URL to the document stored remotely). '' @
     ''The agent uses the DocumentAnalysisClient to begin document analysis and '' @
     ''processes the results to extract comprehensive information.'' @
     [newline] @
     [newline] @
     ''The agent extracts text content with page markers, adding '' @
     [CHR 0x22] @
     ''page number X'' @
     [CHR 0x22] @
     '' '' @
     ''markers for each page to maintain document structure. It processes all lines '' @
     ''on each page, preserving the original document layout. For tables, the agent '' @
     ''detects and extracts table data with complete cell information including '' @
     ''row_index, column_index, and cell content, allowing for full table '' @
     ''reconstruction.'' @
     [newline] @
     [newline] @
     ''The agent returns comprehensive results including result (extracted text with '' @
     ''page markers), and metadata object containing pages (number of pages '' @
     ''processed), tables (number of tables detected), tables_data (array of table '' @
     ''objects with row, column, and content for each cell), and model (the prebuilt '' @
     ''model used for extraction).'' @
     [newline] @
     [newline] @
     ''Key capabilities include PDF text extraction with high accuracy, table '' @
     ''detection and extraction with cell-level detail, multi-page document '' @
     ''processing with page markers, layout analysis and structure preservation, '' @
     ''form field extraction, key-value pair extraction, document classification, '' @
     ''language detection, and metadata extraction (pages, tables, model '' @
     ''information).'' @
     [newline] @
     [newline] @
     ''This agent is ideal for document digitization and OCR, invoice and receipt '' @
     ''processing, form data extraction, medical record digitization, legal document '' @
     ''processing, financial document analysis, identity document verification, and '' @
     ''contract and agreement processing. It serves as the foundation for all '' @
     ''document-based workflows, extracting raw text that can then be processed by '' @
     ''specialized agents.'' @
     [newline] @
     [newline] @
     ''The agent requires either file_bytes (base64 encoded file bytes or binary '' @
     ''data) or file_url (URL to the document). It works with PDF files (primary '' @
     ''format), image files (JPG, PNG) for OCR, and scanned documents. The agent '' @
     ''works best with clear, high-quality documents and provides high accuracy for '' @
     ''printed text.'' @
     [newline] @
     [newline] @
     ''Technical implementation uses Azure Document Intelligence API with the '' @
     ''prebuilt model. The agent uses DocumentAnalysisClient with AzureKeyCredential '' @
     ''for authentication. It supports both direct file bytes and remote file URLs, '' @
     ''provides high-accuracy OCR capabilities, preserves document structure and '' @
     ''layout with page markers, and extracts tables with complete cell-level '' @
     ''formatting. The agent includes error handling for missing credentials and '' @
     ''invalid input types. Cost: Based on Azure Document Intelligence pricing '' @
     ''($0.001 per page).''"

text \<open>Lines 123-147.\<close>

definition get_metadata :: "unit \<Rightarrow> pyval" where
  "get_metadata u =
     PDict
       [(''id'', PStr ''text_extraction''),
        (''name'', PStr ''Text Extraction Agent''),
        (''description'', PStr description_text),
        (''cost'', PStr ''$0.001 per page''),
        (''api_endpoint'', PStr ''/agents/text_extraction/run''),
        (''category'', PStr ''document_processing''),
        (''agent_type'', PStr ''generalized'')]"

section \<open>What the specification says, for comparison with the code\<close>

text \<open>Both credentials non-empty.\<close>

definition credentials_configured :: "settings \<Rightarrow> bool" where
  "credentials_configured st =
     (truthy (AZURE_FORMRECOGNIZER_ENDPOINT st) \<and> truthy (AZURE_FORMRECOGNIZER_KEY st))"

text \<open>
  The text of one page as the specification words it: the line \<open>page number N\<close>, then
  every line of the page, each ended by a newline.
\<close>

definition page_block :: "nat \<Rightarrow> document_page \<Rightarrow> string" where
  "page_block N page =
     ''page number '' @ str_nat N @ [newline] @
     concat (map (\<lambda>l. content l @ [newline]) (lines page))"

text \<open>The pages in service order, numbered from 1.\<close>

definition text_spec :: "document_page list \<Rightarrow> string" where
  "text_spec ps = concat (map (\<lambda>(N, page). page_block N page) (enumerate 1 ps))"

text \<open>One cell as a \<open>{row, column, content}\<close> record.\<close>

definition cell_record :: "document_table_cell \<Rightarrow> pyval" where
  "cell_record c =
     PDict [(''row'', PInt (row_index c)),
            (''column'', PInt (column_index c)),
            (''content'', PStr (cell_content c))]"

text \<open>Per table in service order, its cells in service order.\<close>

definition tables_data_spec :: "document_table list \<Rightarrow> pyval list" where
  "tables_data_spec ts = map (\<lambda>t. PList (map cell_record (cells t))) ts"



section \<open>Stub services and requests\<close>

definition configured_settings :: settings where
  "configured_settings =
     \<lparr>AZURE_FORMRECOGNIZER_ENDPOINT = Some ''https://ocr.example.test/'',
      AZURE_FORMRECOGNIZER_KEY = Some ''secret'',
      PREBUILT_MODEL = ''prebuilt-document''\<rparr>"

definition missing_endpoint_settings :: settings where
  "missing_endpoint_settings =
     \<lparr>AZURE_FORMRECOGNIZER_ENDPOINT = None,
      AZURE_FORMRECOGNIZER_KEY = Some ''secret'',
      PREBUILT_MODEL = ''prebuilt-document''\<rparr>"

definition empty_key_settings :: settings where
  "empty_key_settings =
     \<lparr>AZURE_FORMRECOGNIZER_ENDPOINT = Some ''https://ocr.example.test/'',
      AZURE_FORMRECOGNIZER_KEY = Some [],
      PREBUILT_MODEL = ''prebuilt-document''\<rparr>"

definition two_pages :: analyze_result where
  "two_pages =
     \<lparr>pages =
        [\<lparr>lines = [\<lparr>content = ''Hello''\<rparr>, \<lparr>content = ''World''\<rparr>]\<rparr>,
         \<lparr>lines = [\<lparr>content = ''Foo''\<rparr>]\<rparr>],
      tables = []\<rparr>"

definition one_table :: analyze_result where
  "one_table =
     \<lparr>pages = [],
      tables =
        [\<lparr>cells =
            [\<lparr>row_index = 0, column_index = 0, cell_content = ''A''\<rparr>,
             \<lparr>row_index = 0, column_index = 1, cell_content = ''B''\<rparr>,
             \<lparr>row_index = 1, column_index = 0, cell_content = ''C''\<rparr>]\<rparr>]\<rparr>"

text \<open>A service whose two operations both complete with the given result.\<close>

definition stub_returning :: "analyze_result \<Rightarrow> document_analysis_client" where
  "stub_returning r =
     \<lparr>begin_analyze_document = (\<lambda>model_id document. Inr (Inr r)),
      begin_analyze_document_from_url = (\<lambda>model_id document_url. Inr (Inr r))\<rparr>"

text \<open>A service whose two operations both raise at once.\<close>

definition stub_raising :: "exn \<Rightarrow> document_analysis_client" where
  "stub_raising e =
     \<lparr>begin_analyze_document = (\<lambda>model_id document. Inl e),
      begin_analyze_document_from_url = (\<lambda>model_id document_url. Inl e)\<rparr>"


text \<open>
  A service that rejects raw bytes and accepts a URL: the two paths give different
  outcomes, which shows which one was taken.
\<close>

definition stub_url_only :: "exn \<Rightarrow> analyze_result \<Rightarrow> document_analysis_client" where
  "stub_url_only e r =
     \<lparr>begin_analyze_document = (\<lambda>model_id document. Inl e),
      begin_analyze_document_from_url = (\<lambda>model_id document_url. Inr (Inr r))\<rparr>"

definition quota_error :: exn where
  "quota_error = Exn ''HttpResponseError'' ''(429) quota exceeded''"

definition bytes_request :: "string \<rightharpoonup> pyval" where
  "bytes_request = [''file_bytes'' \<mapsto> PBytes ''%PDF-1.7'']"

definition url_request :: "string \<rightharpoonup> pyval" where
  "url_request = [''file_url'' \<mapsto> PStr ''https://files.example.test/a.pdf'']"

definition both_request :: "string \<rightharpoonup> pyval" where
  "both_request =
     [''file_bytes'' \<mapsto> PBytes ''%PDF-1.7'',
      ''file_url'' \<mapsto> PStr ''https://files.example.test/a.pdf'']"

definition none_bytes_request :: "string \<rightharpoonup> pyval" where
  "none_bytes_request =
     [''file_bytes'' \<mapsto> PNone,
      ''file_url'' \<mapsto> PStr ''https://files.example.test/a.pdf'']"

definition empty_request :: "string \<rightharpoonup> pyval" where
  "empty_request = Map.empty"

section \<open>The loops as list functions\<close>

lemma lines_loop_eq:
  "lines_loop acc ls = acc @ concat (map (\<lambda>l. content l @ [newline]) ls)"
  by (induction ls arbitrary: acc) simp_all

lemma pages_loop_eq:
  "pages_loop acc n ps = acc @ concat (map (\<lambda>(N, page). page_block N page) (enumerate n ps))"
  by (induction ps arbitrary: acc n) (simp_all add: lines_loop_eq page_block_def)

lemma cells_loop_eq: "cells_loop acc cs = acc @ map cell_record cs"
  by (induction cs arbitrary: acc) (simp_all add: cell_record_def)

lemma tables_loop_eq: "tables_loop acc ts = acc @ tables_data_spec ts"
  by (induction ts arbitrary: acc) (simp_all add: cells_loop_eq tables_data_spec_def)

lemma flatten_eq:
  "flatten st r =
     PDict
       [(''result'', PStr (text_spec (pages r))),
        (''metadata'',
           PDict
             [(''pages'', PInt (int (length (pages r)))),
              (''tables'', PInt (int (length (tables r)))),
              (''tables_data'', PList (tables_data_spec (tables r))),
              (''model'', PStr (PREBUILT_MODEL st))])]"
  by (simp add: flatten_def pages_loop_eq tables_loop_eq text_spec_def tables_data_spec_def)

section \<open>The two outcomes of the credential check\<close>

lemma process_unconfigured:
  "\<not> credentials_configured st \<Longrightarrow>
     process st client input_data =
       (failure_record ''Azure Form Recognizer credentials not configured'', [])"
  by (auto simp: credentials_configured_def process_def process_try_def ValueError_def)

lemma process_configured:
  "credentials_configured st \<Longrightarrow>
     process st client input_data =
       (case dispatch st client input_data of
          (Inl e, calls) \<Rightarrow> (failure_record (exc_str e), calls)
        | (Inr (Inl e), calls) \<Rightarrow> (failure_record (exc_str e), calls @ [PollerResult])
        | (Inr (Inr r), calls) \<Rightarrow> (flatten st r, calls @ [PollerResult]))"
  by (auto simp: credentials_configured_def process_def process_try_def split: prod.splits sum.splits)


section \<open>Reading the returned record\<close>

lemma py_get_failure_record:
  "py_get (failure_record msg) ''error'' = Some (PStr msg)"
  "py_get (failure_record msg) ''result'' = Some PNone"
  "py_keys (failure_record msg) = [''error'', ''result'']"
  by (simp_all add: failure_record_def)

lemma py_get_flatten:
  "py_get (flatten st r) ''error'' = None"
  "py_get (flatten st r) ''result'' = Some (PStr (text_spec (pages r)))"
  "py_get (flatten st r) ''metadata'' =
     Some (PDict
       [(''pages'', PInt (int (length (pages r)))),
        (''tables'', PInt (int (length (tables r)))),
        (''tables_data'', PList (tables_data_spec (tables r))),
        (''model'', PStr (PREBUILT_MODEL st))])"
  "py_keys (flatten st r) = [''result'', ''metadata'']"
  by (simp_all add: flatten_eq)





section \<open>The stubs, evaluated\<close>

lemma configured_settings_ok: "credentials_configured configured_settings"
  by (simp add: credentials_configured_def configured_settings_def truthy_def)

lemma missing_endpoint_not_ok: "\<not> credentials_configured missing_endpoint_settings"
  by (simp add: credentials_configured_def missing_endpoint_settings_def truthy_def)

lemma empty_key_not_ok: "\<not> credentials_configured empty_key_settings"
  by (simp add: credentials_configured_def empty_key_settings_def truthy_def)

lemma text_spec_two_pages:
  "text_spec (pages two_pages) =
     ''page number 1\<newline>Hello\<newline>World\<newline>page number 2\<newline>Foo\<newline>''"
  by code_simp

lemma tables_data_one_table:
  "tables_data_spec (tables one_table) =
     [PList
        [PDict [(''row'', PInt 0), (''column'', PInt 0), (''content'', PStr ''A'')],
         PDict [(''row'', PInt 0), (''column'', PInt 1), (''content'', PStr ''B'')],
         PDict [(''row'', PInt 1), (''column'', PInt 0), (''content'', PStr ''C'')]]]"
  by (simp add: tables_data_spec_def one_table_def cell_record_def)

lemma dispatch_bytes_request:
  "dispatch configured_settings client bytes_request =
     (begin_analyze_document client ''prebuilt-document'' (PBytes ''%PDF-1.7''),
      [BeginAnalyzeDocument ''prebuilt-document'' (PBytes ''%PDF-1.7'')])"
  by (simp add: dispatch_def bytes_request_def configured_settings_def)

lemma process_two_pages:
  "process configured_settings (stub_returning two_pages) bytes_request =
     (flatten configured_settings two_pages,
      [BeginAnalyzeDocument ''prebuilt-document'' (PBytes ''%PDF-1.7''), PollerResult])"
  by (simp add: process_configured configured_settings_ok dispatch_bytes_request
      stub_returning_def)

lemma process_one_table:
  "process configured_settings (stub_returning one_table) bytes_request =
     (flatten configured_settings one_table,
      [BeginAnalyzeDocument ''prebuilt-document'' (PBytes ''%PDF-1.7''), PollerResult])"
  by (simp add: process_configured configured_settings_ok dispatch_bytes_request
      stub_returning_def)

section \<open>The result record\<close>



section \<open>Successful calls\<close>

lemma process_success_only_if:
  assumes "py_get (fst (process st client input_data)) ''error'' = None"
  shows "\<exists>result calls. credentials_configured st \<and>
           dispatch st client input_data = (Inr (Inr result), calls) \<and>
           process st client input_data = (flatten st result, calls @ [PollerResult])"
proof (cases "credentials_configured st")
  case False
  with assms show ?thesis
    by (simp add: process_unconfigured py_get_failure_record)
next
  case True
  with assms show ?thesis
    by (auto simp: process_configured py_get_failure_record split: prod.splits sum.splits)
qed

text \<open>
  Claim C2. For every successful call (the returned record has no \<open>error\<close> key), the
  service returned a result and the \<open>result\<close> text is, for its pages in order and
  numbered from 1, the line \<open>page number N\<close> followed by each line of the page, every
  line ended by a newline. For the service result of two pages with the lines
  \<open>Hello\<close>, \<open>World\<close> and \<open>Foo\<close> the text is exactly
  \<open>page number 1\<newline>Hello\<newline>World\<newline>page number 2\<newline>Foo\<newline>\<close>
  with a newline at each \<open>\<newline>\<close>.
\<close>

theorem result_text_lists_pages_in_order:
  "(py_get (fst (process st client input_data)) ''error'' = None \<longrightarrow>
      (\<exists>result calls.
         dispatch st client input_data = (Inr (Inr result), calls) \<and>
         py_get (fst (process st client input_data)) ''result'' =
           Some (PStr (text_spec (pages result))))) \<and>
   py_get (fst (process configured_settings (stub_returning two_pages) bytes_request)) ''result'' =
     Some (PStr ''page number 1\<newline>Hello\<newline>World\<newline>page number 2\<newline>Foo\<newline>'')"
proof (intro conjI impI)
  assume "py_get (fst (process st client input_data)) ''error'' = None"
  then obtain result calls where
    d: "dispatch st client input_data = (Inr (Inr result), calls)" and
    p: "process st client input_data = (flatten st result, calls @ [PollerResult])"
    using process_success_only_if by blast
  from p have "py_get (fst (process st client input_data)) ''result'' =
      Some (PStr (text_spec (pages result)))"
    by (simp add: py_get_flatten)
  with d show "\<exists>result calls.
      dispatch st client input_data = (Inr (Inr result), calls) \<and>
      py_get (fst (process st client input_data)) ''result'' =
        Some (PStr (text_spec (pages result)))"
    by blast
next
  show "py_get (fst (process configured_settings (stub_returning two_pages) bytes_request)) ''result'' =
     Some (PStr ''page number 1\<newline>Hello\<newline>World\<newline>page number 2\<newline>Foo\<newline>'')"
    by (simp add: process_two_pages py_get_flatten text_spec_two_pages)
qed

text \<open>The same two pages, requested by URL: the call succeeds and the theorem gives its text.\<close>

theorem result_text_lists_pages_in_order_witness:
  "py_get (fst (process configured_settings (stub_returning two_pages) url_request)) ''error'' = None \<and>
   (\<exists>result calls.
      dispatch configured_settings (stub_returning two_pages) url_request =
        (Inr (Inr result), calls) \<and>
      py_get (fst (process configured_settings (stub_returning two_pages) url_request)) ''result'' =
        Some (PStr (text_spec (pages result))))"
proof -
  have ok: "py_get (fst (process configured_settings (stub_returning two_pages) url_request))
      ''error'' = None"
    by (simp add: process_configured configured_settings_ok dispatch_def url_request_def
        stub_returning_def py_get_flatten)
  with result_text_lists_pages_in_order
    [of configured_settings "stub_returning two_pages" url_request]
  show ?thesis by blast
qed

text \<open>
  Claim C3. For every successful call, the \<open>metadata\<close> of the returned record holds
  \<open>pages\<close>, the number of pages of the service result; \<open>tables\<close>, the number of its
  tables; \<open>tables_data\<close>, per table in service order the cells in service order as
  \<open>{row, column, content}\<close> records, neither sorted nor deduplicated; and \<open>model\<close>,
  the configured model identifier. For one table with the cells (0, 0, A), (0, 1, B),
  (1, 0, C), \<open>tables\<close> is 1 and the first entry of \<open>tables_data\<close> is exactly those
  three records in that order.
\<close>

theorem metadata_counts_and_lists_tables:
  "(py_get (fst (process st client input_data)) ''error'' = None \<longrightarrow>
      (\<exists>result calls.
         dispatch st client input_data = (Inr (Inr result), calls) \<and>
         py_get (fst (process st client input_data)) ''metadata'' =
           Some (PDict
             [(''pages'', PInt (int (length (pages result)))),
              (''tables'', PInt (int (length (tables result)))),
              (''tables_data'', PList (tables_data_spec (tables result))),
              (''model'', PStr (PREBUILT_MODEL st))]))) \<and>
   py_get (fst (process configured_settings (stub_returning one_table) bytes_request)) ''metadata'' =
     Some (PDict
       [(''pages'', PInt 0),
        (''tables'', PInt 1),
        (''tables_data'',
           PList
             [PList
                [PDict [(''row'', PInt 0), (''column'', PInt 0), (''content'', PStr ''A'')],
                 PDict [(''row'', PInt 0), (''column'', PInt 1), (''content'', PStr ''B'')],
                 PDict [(''row'', PInt 1), (''column'', PInt 0), (''content'', PStr ''C'')]]]),
        (''model'', PStr ''prebuilt-document'')])"
proof (intro conjI impI)
  assume "py_get (fst (process st client input_data)) ''error'' = None"
  then obtain result calls where
    d: "dispatch st client input_data = (Inr (Inr result), calls)" and
    p: "process st client input_data = (flatten st result, calls @ [PollerResult])"
    using process_success_only_if by blast
  from p have "py_get (fst (process st client input_data)) ''metadata'' =
      Some (PDict
        [(''pages'', PInt (int (length (pages result)))),
         (''tables'', PInt (int (length (tables result)))),
         (''tables_data'', PList (tables_data_spec (tables result))),
         (''model'', PStr (PREBUILT_MODEL st))])"
    by (simp add: py_get_flatten)
  with d show "\<exists>result calls.
      dispatch st client input_data = (Inr (Inr result), calls) \<and>
      py_get (fst (process st client input_data)) ''metadata'' =
        Some (PDict
          [(''pages'', PInt (int (length (pages result)))),
           (''tables'', PInt (int (length (tables result)))),
           (''tables_data'', PList (tables_data_spec (tables result))),
           (''model'', PStr (PREBUILT_MODEL st))])"
    by blast
next
  have "length (pages one_table) = 0" "length (tables one_table) = 1"
      "PREBUILT_MODEL configured_settings = ''prebuilt-document''"
    by (simp_all add: one_table_def configured_settings_def)
  then show "py_get (fst (process configured_settings (stub_returning one_table) bytes_request))
      ''metadata'' =
     Some (PDict
       [(''pages'', PInt 0),
        (''tables'', PInt 1),
        (''tables_data'',
           PList
             [PList
                [PDict [(''row'', PInt 0), (''column'', PInt 0), (''content'', PStr ''A'')],
                 PDict [(''row'', PInt 0), (''column'', PInt 1), (''content'', PStr ''B'')],
                 PDict [(''row'', PInt 1), (''column'', PInt 0), (''content'', PStr ''C'')]]]),
        (''model'', PStr ''prebuilt-document'')])"
    by (simp add: process_one_table py_get_flatten tables_data_one_table)
qed

text \<open>The one-table result, requested by URL.\<close>

theorem metadata_counts_and_lists_tables_witness:
  "py_get (fst (process configured_settings (stub_returning one_table) url_request)) ''error'' = None \<and>
   (\<exists>result calls.
      dispatch configured_settings (stub_returning one_table) url_request =
        (Inr (Inr result), calls) \<and>
      py_get (fst (process configured_settings (stub_returning one_table) url_request)) ''metadata'' =
        Some (PDict
          [(''pages'', PInt (int (length (pages result)))),
           (''tables'', PInt (int (length (tables result)))),
           (''tables_data'', PList (tables_data_spec (tables result))),
           (''model'', PStr (PREBUILT_MODEL configured_settings))]))"
proof -
  have ok: "py_get (fst (process configured_settings (stub_returning one_table) url_request))
      ''error'' = None"
    by (simp add: process_configured configured_settings_ok dispatch_def url_request_def
        stub_returning_def py_get_flatten)
  with metadata_counts_and_lists_tables
    [of configured_settings "stub_returning one_table" url_request]
  show ?thesis by blast
qed

section \<open>Dispatch and the two checks\<close>

lemma process_unconfigured_cases:
  assumes "AZURE_FORMRECOGNIZER_ENDPOINT st \<in> {None, Some []} \<or>
           AZURE_FORMRECOGNIZER_KEY st \<in> {None, Some []}"
  shows "\<not> credentials_configured st"
  using assms by (auto simp: credentials_configured_def truthy_def)

lemma dispatch_file_bytes:
  "input_data ''file_bytes'' = Some b \<Longrightarrow>
     dispatch st client input_data =
       (begin_analyze_document client (PREBUILT_MODEL st) b,
        [BeginAnalyzeDocument (PREBUILT_MODEL st) b])"
  by (simp add: dispatch_def)

lemma dispatch_file_url:
  "input_data ''file_bytes'' = None \<Longrightarrow> input_data ''file_url'' = Some u \<Longrightarrow>
     dispatch st client input_data =
       (begin_analyze_document_from_url client (PREBUILT_MODEL st) u,
        [BeginAnalyzeDocumentFromUrl (PREBUILT_MODEL st) u])"
  by (simp add: dispatch_def)

lemma dispatch_neither:
  "input_data ''file_bytes'' = None \<Longrightarrow> input_data ''file_url'' = None \<Longrightarrow>
     dispatch st client input_data =
       (Inl (ValueError ''Either 'file_bytes' or 'file_url' must be provided''), [])"
  by (simp add: dispatch_def)

lemma process_file_bytes:
  assumes "credentials_configured st" and "input_data ''file_bytes'' = Some b"
  shows "process st client input_data =
     (case begin_analyze_document client (PREBUILT_MODEL st) b of
        Inl e \<Rightarrow> (failure_record (exc_str e), [BeginAnalyzeDocument (PREBUILT_MODEL st) b])
      | Inr (Inl e) \<Rightarrow>
          (failure_record (exc_str e), [BeginAnalyzeDocument (PREBUILT_MODEL st) b, PollerResult])
      | Inr (Inr r) \<Rightarrow>
          (flatten st r, [BeginAnalyzeDocument (PREBUILT_MODEL st) b, PollerResult]))"
  using assms by (simp add: process_configured dispatch_file_bytes split: sum.splits)

lemma process_neither:
  assumes "credentials_configured st"
    and "input_data ''file_bytes'' = None" and "input_data ''file_url'' = None"
  shows "process st client input_data =
     (failure_record ''Either 'file_bytes' or 'file_url' must be provided'', [])"
  using assms by (simp add: process_configured dispatch_neither ValueError_def)

text \<open>
  Claim C4, as amended. For every request in which both \<open>file_bytes\<close> and \<open>file_url\<close>
  are present, the URL operation is never invoked; when both credentials are non-empty,
  the analyze-from-bytes operation is invoked with the \<open>file_bytes\<close> payload and the
  model identifier (followed at most by awaiting its poller); when a credential is
  missing or empty, no service operation is invoked at all.
\<close>

theorem file_bytes_take_precedence:
  assumes "input_data ''file_bytes'' = Some b" and "input_data ''file_url'' = Some u"
  shows "(\<forall>m d. BeginAnalyzeDocumentFromUrl m d \<notin> set (snd (process st client input_data))) \<and>
         (credentials_configured st \<longrightarrow>
            (snd (process st client input_data) =
               [BeginAnalyzeDocument (PREBUILT_MODEL st) b] \<or>
             snd (process st client input_data) =
               [BeginAnalyzeDocument (PREBUILT_MODEL st) b, PollerResult])) \<and>
         (\<not> credentials_configured st \<longrightarrow> snd (process st client input_data) = [])"
proof (cases "credentials_configured st")
  case True
  from process_file_bytes [of st input_data b client, OF True assms(1)] True
  show ?thesis by (auto split: sum.splits)
next
  case False
  then show ?thesis by (simp add: process_unconfigured)
qed

text \<open>
  Both keys present, on a service that rejects bytes and would accept the URL: the
  bytes operation is the only one invoked.
\<close>

theorem file_bytes_take_precedence_witness:
  "both_request ''file_bytes'' = Some (PBytes ''%PDF-1.7'') \<and>
   both_request ''file_url'' = Some (PStr ''https://files.example.test/a.pdf'') \<and>
   credentials_configured configured_settings \<and>
   snd (process configured_settings (stub_url_only quota_error two_pages) both_request) =
     [BeginAnalyzeDocument ''prebuilt-document'' (PBytes ''%PDF-1.7'')] \<and>
   (\<forall>m d. BeginAnalyzeDocumentFromUrl m d \<notin>
      set (snd (process configured_settings (stub_url_only quota_error two_pages) both_request)))"
proof -
  have b: "both_request ''file_bytes'' = Some (PBytes ''%PDF-1.7'')"
    and u: "both_request ''file_url'' = Some (PStr ''https://files.example.test/a.pdf'')"
    by (simp_all add: both_request_def)
  have m: "PREBUILT_MODEL configured_settings = ''prebuilt-document''"
    by (simp add: configured_settings_def)
  have r: "snd (process configured_settings (stub_url_only quota_error two_pages) both_request) =
      [BeginAnalyzeDocument ''prebuilt-document'' (PBytes ''%PDF-1.7'')]"
    using configured_settings_ok b
    by (simp add: process_file_bytes [of configured_settings both_request "PBytes ''%PDF-1.7''"]
        m stub_url_only_def)
  from file_bytes_take_precedence [of both_request "PBytes ''%PDF-1.7''"
      "PStr ''https://files.example.test/a.pdf''" configured_settings
      "stub_url_only quota_error two_pages"]
    b u r configured_settings_ok
  show ?thesis by simp
qed

text \<open>
  Claim C4 as stated fails: with the endpoint missing, a request holding both keys
  reaches no service operation, so the analyze-from-bytes operation is not invoked.
\<close>

theorem file_bytes_precedence_counterexample:
  "both_request ''file_bytes'' = Some (PBytes ''%PDF-1.7'') \<and>
   both_request ''file_url'' = Some (PStr ''https://files.example.test/a.pdf'') \<and>
   snd (process missing_endpoint_settings (stub_returning two_pages) both_request) = [] \<and>
   BeginAnalyzeDocument (PREBUILT_MODEL missing_endpoint_settings) (PBytes ''%PDF-1.7'') \<notin>
     set (snd (process missing_endpoint_settings (stub_returning two_pages) both_request))"
  by (simp add: both_request_def process_unconfigured missing_endpoint_not_ok)

text \<open>
  Claim C5. With both credentials non-empty, every request holding neither \<open>file_bytes\<close>
  nor \<open>file_url\<close> gets the failure record with a non-empty \<open>error\<close> string and
  \<open>result\<close> \<open>None\<close>, and no service operation is invoked.
\<close>

theorem no_input_is_rejected_without_service_call:
  assumes "credentials_configured st"
    and "input_data ''file_bytes'' = None"
    and "input_data ''file_url'' = None"
  shows "process st client input_data =
           (PDict [(''error'', PStr ''Either 'file_bytes' or 'file_url' must be provided''),
                   (''result'', PNone)], []) \<and>
         ''Either 'file_bytes' or 'file_url' must be provided'' \<noteq> []"
  using assms by (simp add: process_neither failure_record_def)

text \<open>The empty request under a configured adapter.\<close>

theorem no_input_is_rejected_without_service_call_witness:
  "credentials_configured configured_settings \<and>
   empty_request ''file_bytes'' = None \<and> empty_request ''file_url'' = None \<and>
   process configured_settings (stub_returning two_pages) empty_request =
     (PDict [(''error'', PStr ''Either 'file_bytes' or 'file_url' must be provided''),
             (''result'', PNone)], [])"
proof -
  have n: "empty_request ''file_bytes'' = None" "empty_request ''file_url'' = None"
    by (simp_all add: empty_request_def)
  from no_input_is_rejected_without_service_call [of configured_settings empty_request
      "stub_returning two_pages"] n configured_settings_ok
  show ?thesis by simp
qed

text \<open>
  Claim C6. Whenever the endpoint or the key is missing or empty, \<open>process\<close> returns
  the failure record with a non-empty \<open>error\<close> string and \<open>result\<close> \<open>None\<close> and
  invokes no service operation; the outcome is the same for every request and every
  service under that configuration, so repeated calls return the same error.
\<close>

theorem missing_credentials_fail_the_same_way:
  assumes "AZURE_FORMRECOGNIZER_ENDPOINT st \<in> {None, Some []} \<or>
           AZURE_FORMRECOGNIZER_KEY st \<in> {None, Some []}"
  shows "process st client input_data =
           (PDict [(''error'', PStr ''Azure Form Recognizer credentials not configured''),
                   (''result'', PNone)], []) \<and>
         ''Azure Form Recognizer credentials not configured'' \<noteq> [] \<and>
         process st client' input_data' = process st client input_data"
  using process_unconfigured_cases [OF assms]
  by (simp add: process_unconfigured failure_record_def)

text \<open>An empty key: two different calls, one outcome.\<close>

theorem missing_credentials_fail_the_same_way_witness:
  "AZURE_FORMRECOGNIZER_KEY empty_key_settings = Some [] \<and>
   process empty_key_settings (stub_returning two_pages) bytes_request =
     (PDict [(''error'', PStr ''Azure Form Recognizer credentials not configured''),
             (''result'', PNone)], []) \<and>
   process empty_key_settings (stub_raising quota_error) url_request =
     process empty_key_settings (stub_returning two_pages) bytes_request"
proof -
  have k: "AZURE_FORMRECOGNIZER_KEY empty_key_settings = Some []"
    by (simp add: empty_key_settings_def)
  then have "AZURE_FORMRECOGNIZER_ENDPOINT empty_key_settings \<in> {None, Some []} \<or>
      AZURE_FORMRECOGNIZER_KEY empty_key_settings \<in> {None, Some []}"
    by simp
  from missing_credentials_fail_the_same_way [OF this, of "stub_returning two_pages"
      bytes_request "stub_raising quota_error" url_request] k
  show ?thesis by simp
qed

text \<open>
  Claim C7, as amended. The credential check runs before the input check: for every
  request holding neither \<open>file_bytes\<close> nor \<open>file_url\<close>, the failure returned is the
  missing-input one when both credentials are non-empty, and the missing-credentials
  one when a credential is missing or empty; in both cases no service operation is
  invoked.
\<close>

theorem credential_check_precedes_input_check:
  assumes "input_data ''file_bytes'' = None" and "input_data ''file_url'' = None"
  shows "process st client input_data =
           (failure_record
              (if credentials_configured st
               then ''Either 'file_bytes' or 'file_url' must be provided''
               else ''Azure Form Recognizer credentials not configured''), [])"
  using assms by (simp add: process_neither process_unconfigured)

text \<open>The empty request under a configured and under an unconfigured adapter.\<close>

theorem credential_check_precedes_input_check_witness:
  "empty_request ''file_bytes'' = None \<and> empty_request ''file_url'' = None \<and>
   process configured_settings (stub_raising quota_error) empty_request =
     (failure_record ''Either 'file_bytes' or 'file_url' must be provided'', []) \<and>
   process empty_key_settings (stub_raising quota_error) empty_request =
     (failure_record ''Azure Form Recognizer credentials not configured'', [])"
proof -
  have n: "empty_request ''file_bytes'' = None" "empty_request ''file_url'' = None"
    by (simp_all add: empty_request_def)
  from credential_check_precedes_input_check [of empty_request configured_settings
      "stub_raising quota_error"]
    credential_check_precedes_input_check [of empty_request empty_key_settings
      "stub_raising quota_error"]
    n configured_settings_ok empty_key_not_ok
  show ?thesis by simp
qed

text \<open>
  Claim C7 as stated fails: with the endpoint missing, the empty request gets the
  missing-credentials failure, not the missing-input one.
\<close>

theorem resolver_first_counterexample:
  "empty_request ''file_bytes'' = None \<and> empty_request ''file_url'' = None \<and>
   py_get (fst (process missing_endpoint_settings (stub_returning two_pages) empty_request)) ''error'' =
     Some (PStr ''Azure Form Recognizer credentials not configured'') \<and>
   py_get (fst (process missing_endpoint_settings (stub_returning two_pages) empty_request)) ''error'' \<noteq>
     Some (PStr ''Either 'file_bytes' or 'file_url' must be provided'')"
  by (simp add: empty_request_def process_unconfigured missing_endpoint_not_ok
      py_get_failure_record)

section \<open>The handler\<close>






section \<open>The schema probes, read\<close>

text \<open>
  Claim C9. \<open>get_input_schema\<close>, \<open>get_output_schema\<close> and \<open>get_metadata\<close> return
  the same value at every call; they read and change nothing, taking no argument but
  \<open>()\<close> and returning a value only. The \<open>required\<close> list of the input schema names
  \<open>file_bytes\<close> alone, and its \<open>properties\<close> advertise \<open>file_bytes\<close> and
  \<open>file_url\<close>.
\<close>

theorem schema_probes_are_constant:
  "get_input_schema u = get_input_schema u' \<and>
   get_output_schema u = get_output_schema u' \<and>
   get_metadata u = get_metadata u' \<and>
   py_get (get_input_schema u) ''required'' = Some (PList [PStr ''file_bytes'']) \<and>
   map_option py_keys (py_get (get_input_schema u) ''properties'') =
     Some [''file_bytes'', ''file_url'']"
  by (simp add: get_input_schema_def)

text \<open>The probes at the one argument they have.\<close>

theorem schema_probes_are_constant_witness:
  "get_metadata () = get_metadata () \<and>
   py_get (get_input_schema ()) ''required'' = Some (PList [PStr ''file_bytes'']) \<and>
   map_option py_keys (py_get (get_input_schema ()) ''properties'') =
     Some [''file_bytes'', ''file_url'']"
  using schema_probes_are_constant [of "()" "()"] by simp

section \<open>Key presence\<close>

text \<open>
  Claim C10, as amended. Dispatch is decided by the presence of the key, not by the
  truthiness of its value: for every request that holds the key \<open>file_bytes\<close>, with
  any value, the URL operation is never invoked and the outcome does not depend on
  \<open>file_url\<close> being present, absent or changed. When both credentials are non-empty,
  the analyze-from-bytes operation is invoked with that value, and any failure
  returned carries the text of an exception of the bytes analysis (raised by the
  operation or while awaiting its poller), not of the input check. When a credential
  is missing or empty, no service operation is invoked and the failure returned is the
  one of the credential check.
\<close>

theorem key_presence_decides_dispatch:
  assumes "input_data ''file_bytes'' = Some v"
  shows "(\<forall>m d. BeginAnalyzeDocumentFromUrl m d \<notin> set (snd (process st client input_data))) \<and>
         process st client (input_data(''file_url'' := w)) = process st client input_data \<and>
         (credentials_configured st \<longrightarrow>
            (snd (process st client input_data) =
               [BeginAnalyzeDocument (PREBUILT_MODEL st) v] \<or>
             snd (process st client input_data) =
               [BeginAnalyzeDocument (PREBUILT_MODEL st) v, PollerResult]) \<and>
            (\<forall>msg. py_get (fst (process st client input_data)) ''error'' = Some (PStr msg) \<longrightarrow>
               (\<exists>e. (begin_analyze_document client (PREBUILT_MODEL st) v = Inl e \<or>
                     begin_analyze_document client (PREBUILT_MODEL st) v = Inr (Inl e)) \<and>
                    msg = exc_str e))) \<and>
         (\<not> credentials_configured st \<longrightarrow>
            snd (process st client input_data) = [] \<and>
            fst (process st client input_data) =
              PDict [(''error'', PStr ''Azure Form Recognizer credentials not configured''),
                     (''result'', PNone)])"
proof (cases "credentials_configured st")
  case False
  then show ?thesis by (simp add: process_unconfigured failure_record_def)
next
  case True
  note p = process_file_bytes [of st input_data v client, OF True assms]
  have url: "\<forall>m d. BeginAnalyzeDocumentFromUrl m d \<notin> set (snd (process st client input_data))"
    by (simp add: p split: sum.splits)
  have "(input_data(''file_url'' := w)) ''file_bytes'' = Some v"
    using assms by simp
  from process_file_bytes [of st "input_data(''file_url'' := w)" v client, OF True this]
  have same: "process st client (input_data(''file_url'' := w)) = process st client input_data"
    by (simp add: p)
  have calls: "snd (process st client input_data) =
        [BeginAnalyzeDocument (PREBUILT_MODEL st) v] \<or>
      snd (process st client input_data) =
        [BeginAnalyzeDocument (PREBUILT_MODEL st) v, PollerResult]"
    by (simp add: p split: sum.splits)
  have origin: "\<forall>msg. py_get (fst (process st client input_data)) ''error'' = Some (PStr msg) \<longrightarrow>
      (\<exists>e. (begin_analyze_document client (PREBUILT_MODEL st) v = Inl e \<or>
            begin_analyze_document client (PREBUILT_MODEL st) v = Inr (Inl e)) \<and>
           msg = exc_str e)"
    by (auto simp: p py_get_failure_record py_get_flatten split: sum.splits)
  from True url same calls origin show ?thesis by blast
qed

text \<open>
  The key \<open>file_bytes\<close> holding \<open>None\<close>, beside a valid URL, on a service that rejects
  bytes and would accept the URL: the bytes operation is invoked with \<open>None\<close> and its
  exception is the failure returned.
\<close>

theorem key_presence_decides_dispatch_witness:
  "none_bytes_request ''file_bytes'' = Some PNone \<and>
   none_bytes_request ''file_url'' = Some (PStr ''https://files.example.test/a.pdf'') \<and>
   credentials_configured configured_settings \<and>
   process configured_settings (stub_url_only quota_error two_pages) none_bytes_request =
     (PDict [(''error'', PStr ''(429) quota exceeded''), (''result'', PNone)],
      [BeginAnalyzeDocument ''prebuilt-document'' PNone]) \<and>
   (\<forall>m d. BeginAnalyzeDocumentFromUrl m d \<notin>
      set (snd (process configured_settings (stub_url_only quota_error two_pages)
        none_bytes_request)))"
proof -
  have b: "none_bytes_request ''file_bytes'' = Some PNone"
    and u: "none_bytes_request ''file_url'' = Some (PStr ''https://files.example.test/a.pdf'')"
    by (simp_all add: none_bytes_request_def)
  have m: "PREBUILT_MODEL configured_settings = ''prebuilt-document''"
    by (simp add: configured_settings_def)
  have r: "process configured_settings (stub_url_only quota_error two_pages) none_bytes_request =
     (PDict [(''error'', PStr ''(429) quota exceeded''), (''result'', PNone)],
      [BeginAnalyzeDocument ''prebuilt-document'' PNone])"
    using configured_settings_ok b
    by (simp add: process_file_bytes [of configured_settings none_bytes_request PNone]
        m stub_url_only_def quota_error_def failure_record_def)
  from key_presence_decides_dispatch [of none_bytes_request PNone configured_settings
      "stub_url_only quota_error two_pages"] b u r configured_settings_ok
  show ?thesis by simp
qed

text \<open>
  Claim C10 as stated fails: with the key empty, a request holding \<open>file_bytes\<close>
  reaches no service operation, and the failure returned is the one of the credential
  check, not one of a bytes analysis attempt.
\<close>

theorem key_presence_counterexample:
  "none_bytes_request ''file_bytes'' = Some PNone \<and>
   snd (process empty_key_settings (stub_returning two_pages) none_bytes_request) = [] \<and>
   py_get (fst (process empty_key_settings (stub_returning two_pages) none_bytes_request)) ''error'' =
     Some (PStr ''Azure Form Recognizer credentials not configured'')"
  by (simp add: none_bytes_request_def process_unconfigured empty_key_not_ok
      py_get_failure_record)

end
